theory Spec2Isabelle
  imports Complex_Main "HOL-Library.Multiset"
begin

section \<open>The relational store\<close>

text \<open>
  The handlers of the application read and write a relational store through a query
  client. A table is the list of its rows; a many-to-many relation is the list of the
  pairs of its join table. A \<open>Decimal\<close> column holds an exact decimal value (a
  rational), a JavaScript number is a real, and a \<open>Date\<close> is its number of milliseconds
  since the epoch.
\<close>

type_synonym decimal = rat
type_synonym number = real
type_synonym date = int

record tag =
  tag_id :: string
  tag_name :: string

record game =
  g_id :: string

record gameObject =
  go_id :: string
  go_createdAt :: date
  go_updatedAt :: date
  go_name :: string
  go_description :: "string option"

record playerScore =
  ps_createdAt :: date
  ps_updatedAt :: date
  ps_score :: decimal
  ps_playerId :: string
  ps_gameObjectId :: string

text \<open>
  \<open>rel_gameObject_tags\<close> holds the pairs (game object id, tag id) of the relation
  \<open>GameObject.tags\<close>; \<open>rel_tag_inputToGames\<close> holds the pairs (tag id, game id) of
  the relation \<open>Tag.inputToGames\<close>.

  A query that orders rows by a column fixes no order among the rows that agree on the
  column: the store returns them in an order of its own, which need not be the order of
  the table. That order is part of the state of the store: \<open>rank_playerScore\<close> ranks
  the score rows, a lower rank first.
\<close>

record store =
  tbl_tag :: "tag list"
  tbl_game :: "game list"
  tbl_gameObject :: "gameObject list"
  tbl_playerScore :: "playerScore list"
  rel_gameObject_tags :: "(string \<times> string) list"
  rel_tag_inputToGames :: "(string \<times> string) list"
  rank_playerScore :: "playerScore \<Rightarrow> nat"

subsection \<open>The three reads of the score query\<close>

text \<open>
  \<open>tag.findMany({where: {inputToGames: {some: {id}}}})\<close>: the tags that have a related
  game row with this id.
\<close>

definition tag_findMany :: "store \<Rightarrow> string \<Rightarrow> tag list" where
  "tag_findMany s gid =
     filter (\<lambda>t. \<exists>g \<in> set (tbl_game s).
                (tag_id t, g_id g) \<in> set (rel_tag_inputToGames s) \<and> g_id g = gid)
       (tbl_tag s)"

text \<open>
  \<open>gameObject.findMany({where: {tags: {some: {id: {in: ids}}}}})\<close>: the game objects
  that have a related tag row whose id is in the list. An empty list matches no row.
\<close>

definition gameObject_findMany :: "store \<Rightarrow> string list \<Rightarrow> gameObject list" where
  "gameObject_findMany s ids =
     filter (\<lambda>go. \<exists>t \<in> set (tbl_tag s).
                (go_id go, tag_id t) \<in> set (rel_gameObject_tags s) \<and> tag_id t \<in> set ids)
       (tbl_gameObject s)"

text \<open>
  \<open>playerScore.findMany({where: {gameObjectId: {in: ids}, playerId}, include:
  {gameObject}, orderBy: {score: "desc"}})\<close>: the rows of the player on the listed game
  objects, by descending score (rows of equal score in the order of the store's rank),
  each with its game object row when \<open>include\<close> is set.
\<close>

definition orderBy_desc :: "('a \<Rightarrow> nat) \<Rightarrow> ('a \<Rightarrow> decimal) \<Rightarrow> 'a list \<Rightarrow> 'a list" where
  "orderBy_desc rank f rows = sort_key (\<lambda>r. - f r) (sort_key rank rows)"

definition playerScore_findMany ::
  "store \<Rightarrow> string list \<Rightarrow> string \<Rightarrow> bool \<Rightarrow> (playerScore \<times> gameObject option) list" where
  "playerScore_findMany s ids pid incl =
     map (\<lambda>r. (r, if incl then find (\<lambda>go. go_id go = ps_gameObjectId r) (tbl_gameObject s)
                   else None))
       (orderBy_desc (rank_playerScore s) ps_score
          (filter (\<lambda>r. ps_gameObjectId r \<in> set ids \<and> ps_playerId r = pid)
             (tbl_playerScore s)))"

section \<open>getPlayerScores\<close>

record authData =
  auth_type :: string
  userId :: string

record ctx =
  authData :: authData
  prisma :: store

record input =
  game_id :: string
  player_id :: string
  include_game_objects :: bool

record outputGameObject =
  ogo_id :: string
  ogo_createdAt :: string
  ogo_updatedAt :: string
  ogo_name :: string
  ogo_description :: "string option"

record outputPlayerScore =
  createdAt :: string
  updatedAt :: string
  score :: number
  playerId :: string
  gameObjectId :: string
  gameObject :: "outputGameObject option"

record output_t =
  playerScores :: "outputPlayerScore list"

datatype error = UNAUTHORIZED string | BAD_REQUEST

text \<open>The reads a call issues, in order, with their arguments.\<close>

datatype dbRead =
  TagFindMany string
  | GameObjectFindMany "string list"
  | PlayerScoreFindMany "string list" string bool

text \<open>
  The conversions of the runtime, \<open>Decimal.toNumber\<close> and \<open>Date.toISOString\<close>, are
  parameters of the model.
\<close>

definition outputRow ::
  "(decimal \<Rightarrow> number) \<Rightarrow> (date \<Rightarrow> string) \<Rightarrow> playerScore \<times> gameObject option \<Rightarrow>
   outputPlayerScore" where
  "outputRow toNumber toISOString row =
     (case row of (playerScore, includedGameObject) \<Rightarrow>
        \<lparr> createdAt = toISOString (ps_createdAt playerScore),
          updatedAt = toISOString (ps_updatedAt playerScore),
          score = toNumber (ps_score playerScore),
          playerId = ps_playerId playerScore,
          gameObjectId = ps_gameObjectId playerScore,
          gameObject =
            (case includedGameObject of
               Some go \<Rightarrow>
                 Some \<lparr> ogo_id = go_id go,
                        ogo_createdAt = toISOString (go_createdAt go),
                        ogo_updatedAt = toISOString (go_updatedAt go),
                        ogo_name = go_name go,
                        ogo_description = go_description go \<rparr>
             | None \<Rightarrow> None) \<rparr>)"

text \<open>
  The resolver: the result of the call together with the reads it issued. A player
  token that asks for another player is refused first.
\<close>

definition getPlayerScores_query ::
  "(decimal \<Rightarrow> number) \<Rightarrow> (date \<Rightarrow> string) \<Rightarrow> ctx \<Rightarrow> input \<Rightarrow>
   dbRead list \<times> (error + output_t)" where
  "getPlayerScores_query toNumber toISOString c inp =
     (if auth_type (authData c) = ''player_token'' \<and> userId (authData c) \<noteq> player_id inp
      then ([], Inl (UNAUTHORIZED
                (''Player '' @ userId (authData c) @
                 '' is only authorized to get their own scores'')))
      else
        let gameTags = tag_findMany (prisma c) (game_id inp);
            tagIds = map tag_id gameTags;
            gameObjects = gameObject_findMany (prisma c) tagIds;
            gameObjectIds = map go_id gameObjects;
            playerScores =
              playerScore_findMany (prisma c) gameObjectIds (player_id inp)
                (include_game_objects inp);
            outputData = map (outputRow toNumber toISOString) playerScores
        in ([TagFindMany (game_id inp), GameObjectFindMany tagIds,
             PlayerScoreFindMany gameObjectIds (player_id inp) (include_game_objects inp)],
            Inr \<lparr> playerScores = outputData \<rparr>))"

subsection \<open>Input validation\<close>

text \<open>
  The request carries untyped values. \<open>z.string()\<close> accepts every string, the empty
  one too; the flag is \<open>value === "true"\<close>, with \<open>false\<close> for a missing value.
\<close>

datatype jsval = JUndefined | JString string | JBool bool | JOther

record rawInput =
  raw_game_id :: jsval
  raw_player_id :: jsval
  raw_include_game_objects :: jsval

fun z_string :: "jsval \<Rightarrow> error + string" where
  "z_string (JString v) = Inr v"
| "z_string _ = Inl BAD_REQUEST"

definition z_include_game_objects :: "jsval \<Rightarrow> bool" where
  "z_include_game_objects v =
     (let v' = (if v = JUndefined then JBool False else v) in v' = JString ''true'')"

definition getPlayerScores_input :: "rawInput \<Rightarrow> error + input" where
  "getPlayerScores_input raw =
     (case z_string (raw_game_id raw) of
        Inl e \<Rightarrow> Inl e
      | Inr g \<Rightarrow>
          (case z_string (raw_player_id raw) of
             Inl e \<Rightarrow> Inl e
           | Inr p \<Rightarrow>
               Inr \<lparr> game_id = g, player_id = p,
                     include_game_objects =
                       z_include_game_objects (raw_include_game_objects raw) \<rparr>))"

definition getPlayerScores ::
  "(decimal \<Rightarrow> number) \<Rightarrow> (date \<Rightarrow> string) \<Rightarrow> ctx \<Rightarrow> rawInput \<Rightarrow>
   dbRead list \<times> (error + output_t)" where
  "getPlayerScores toNumber toISOString c raw =
     (case getPlayerScores_input raw of
        Inl e \<Rightarrow> ([], Inl e)
      | Inr inp \<Rightarrow> getPlayerScores_query toNumber toISOString c inp)"

section \<open>The game-object table\<close>

subsection \<open>The filter sent with the listing and the count query\<close>

text \<open>
  A filter of the listing: a combination mode, a \<open>contains\<close> clause per text column, and
  a tag. The table sends the same filter expression with the listing query
  (\<open>gameObjects.getAll\<close>) and with the count query (\<open>gameObjects.getCount\<close>): for a
  non-empty search text, mode \<open>OR\<close> with a clause on the id and a clause on the name;
  otherwise only the tag.
\<close>

record gameObjectsFilter =
  f_mode :: "string option"
  f_id :: "string option"
  f_name :: "string option"
  f_description :: "string option"
  f_tag :: "string option"

definition GameObjectsTable_filter :: "string \<Rightarrow> string option \<Rightarrow> gameObjectsFilter" where
  "GameObjectsTable_filter globalFilter tag =
     (if globalFilter \<noteq> []
      then \<lparr> f_mode = Some ''OR'', f_id = Some globalFilter, f_name = Some globalFilter,
             f_description = None, f_tag = tag \<rparr>
      else \<lparr> f_mode = None, f_id = None, f_name = None, f_description = None,
             f_tag = tag \<rparr>)"

text \<open>\<open>contains hay needle\<close>: the needle occurs in the text as a contiguous run.\<close>

fun contains :: "string \<Rightarrow> string \<Rightarrow> bool" where
  "contains [] needle = (needle = [])"
| "contains (c # cs) needle =
     (take (length needle) (c # cs) = needle \<or> contains cs needle)"

text \<open>
  Modelled from the spec: the handlers \<open>gameObjects.getAll\<close> and
  \<open>gameObjects.getCount\<close> of the server are not among the sources. By the
  specification a row passes the filter when, if a text clause is supplied, at least one
  supplied clause holds of its column (substring, OR across id, name and description),
  and when, if a tag is supplied, the row carries exactly that tag. The count is the
  number of rows that pass.
\<close>

definition clauseHolds :: "string option \<Rightarrow> string option \<Rightarrow> bool" where
  "clauseHolds clause column =
     (case clause of
        None \<Rightarrow> False
      | Some v \<Rightarrow> (case column of None \<Rightarrow> False | Some txt \<Rightarrow> contains txt v))"

definition gameObjects_where :: "store \<Rightarrow> gameObjectsFilter \<Rightarrow> gameObject \<Rightarrow> bool" where
  "gameObjects_where s f go =
     ((if f_id f = None \<and> f_name f = None \<and> f_description f = None then True
       else clauseHolds (f_id f) (Some (go_id go)) \<or>
            clauseHolds (f_name f) (Some (go_name go)) \<or>
            clauseHolds (f_description f) (go_description go)) \<and>
      (case f_tag f of
         None \<Rightarrow> True
       | Some t \<Rightarrow> (go_id go, t) \<in> set (rel_gameObject_tags s)))"

definition gameObjects_getCount :: "store \<Rightarrow> gameObjectsFilter \<Rightarrow> nat" where
  "gameObjects_getCount s f = length (filter (gameObjects_where s f) (tbl_gameObject s))"

subsection \<open>Page count and page index\<close>

text \<open>
  Counts, page sizes and page indices are integers; a division by a page size of zero
  gives one of the three non-finite numbers, which the comparisons below treat as
  JavaScript does.
\<close>

datatype jsnum = Fin int | PosInf | NegInf | NaN

fun js_ge :: "jsnum \<Rightarrow> jsnum \<Rightarrow> bool" where
  "js_ge NaN _ = False"
| "js_ge _ NaN = False"
| "js_ge PosInf _ = True"
| "js_ge _ NegInf = True"
| "js_ge (Fin a) (Fin b) = (a \<ge> b)"
| "js_ge _ _ = False"

fun js_lt :: "jsnum \<Rightarrow> jsnum \<Rightarrow> bool" where
  "js_lt NaN _ = False"
| "js_lt _ NaN = False"
| "js_lt (Fin a) (Fin b) = (a < b)"
| "js_lt PosInf _ = False"
| "js_lt _ NegInf = False"
| "js_lt _ _ = True"

fun js_minus :: "jsnum \<Rightarrow> int \<Rightarrow> jsnum" where
  "js_minus (Fin a) b = Fin (a - b)"
| "js_minus x _ = x"

record paginationState =
  pageIndex :: jsnum
  pageSize :: int

definition pageCount :: "int option \<Rightarrow> int \<Rightarrow> jsnum" where
  "pageCount countData pgSize =
     (case countData of
        None \<Rightarrow> Fin 0
      | Some n \<Rightarrow>
          if pgSize = 0
          then (if n = 0 then NaN else if n > 0 then PosInf else NegInf)
          else Fin \<lceil>real_of_int n / real_of_int pgSize\<rceil>)"

text \<open>One run of the effect that keeps the page index in bounds.\<close>

definition pageIndexEffect :: "jsnum \<Rightarrow> paginationState \<Rightarrow> paginationState" where
  "pageIndexEffect pgCount prev =
     (if js_ge (pageIndex prev) pgCount then prev\<lparr>pageIndex := js_minus pgCount 1\<rparr>
      else if pgCount = Fin 0 then prev
      else if js_lt (pageIndex prev) (Fin 0) then prev\<lparr>pageIndex := Fin 0\<rparr>
      else prev)"

section \<open>updateById\<close>

text \<open>
  \<open>gameObject.update({where: {id}, data})\<close>: a field that is not supplied is left as it
  is; \<open>connect\<close> adds the pairs of the listed tags to the relation and removes none. The
  update fails when no row has the id, when the new id is taken, or when a tag to
  connect does not exist. A change of the id carries over to the rows that refer to it.
  When the data write a column of the row, the store stamps the row with the time of
  the update; an update that only connects tags writes no column of the row and leaves
  the stamp.
\<close>

record gameObjectUpdateData =
  upd_id :: "string option"
  upd_name :: "string option"
  upd_description :: "string option"
  upd_tags_connect :: "string list option"

datatype prismaError = RecordNotFound | UniqueConstraintFailed

definition gameObject_update ::
  "date \<Rightarrow> store \<Rightarrow> string \<Rightarrow> gameObjectUpdateData \<Rightarrow> prismaError + (store \<times> gameObject)" where
  "gameObject_update now s i d =
     (case find (\<lambda>go. go_id go = i) (tbl_gameObject s) of
        None \<Rightarrow> Inl RecordNotFound
      | Some old \<Rightarrow>
          let newId = (case upd_id d of None \<Rightarrow> i | Some v \<Rightarrow> v);
              connect = (case upd_tags_connect d of None \<Rightarrow> [] | Some ts \<Rightarrow> ts)
          in
            if newId \<noteq> i \<and> newId \<in> set (map go_id (tbl_gameObject s))
            then Inl UniqueConstraintFailed
            else if \<exists>t \<in> set connect. t \<notin> set (map tag_id (tbl_tag s))
            then Inl RecordNotFound
            else
              let updated = old
                    \<lparr> go_id := newId,
                      go_updatedAt :=
                        (if upd_id d = None \<and> upd_name d = None \<and> upd_description d = None
                         then go_updatedAt old else now),
                      go_name := (case upd_name d of None \<Rightarrow> go_name old | Some v \<Rightarrow> v),
                      go_description :=
                        (case upd_description d of
                           None \<Rightarrow> go_description old
                         | Some v \<Rightarrow> Some v) \<rparr>;
                  moved = map (\<lambda>(g, t). (if g = i then newId else g, t))
                            (rel_gameObject_tags s);
                  added = filter (\<lambda>p. p \<notin> set moved) (remdups (map (Pair newId) connect))
              in Inr (s \<lparr> tbl_gameObject :=
                            map (\<lambda>go. if go_id go = i then updated else go)
                              (tbl_gameObject s),
                          tbl_playerScore :=
                            map (\<lambda>r. if ps_gameObjectId r = i
                                      then r\<lparr>ps_gameObjectId := newId\<rparr> else r)
                              (tbl_playerScore s),
                          rel_gameObject_tags := moved @ added \<rparr>,
                      updated))"

record updateByIdData =
  data_id :: "string option"
  data_name :: "string option"
  data_description :: "string option"
  data_tags :: "string list option"

definition updateById ::
  "date \<Rightarrow> store \<Rightarrow> string \<Rightarrow> updateByIdData \<Rightarrow> prismaError + (store \<times> gameObject)" where
  "updateById now s i dat =
     gameObject_update now s i
       \<lparr> upd_id = data_id dat,
         upd_name = data_name dat,
         upd_description = data_description dat,
         upd_tags_connect = map_option (map (\<lambda>tag. tag)) (data_tags dat) \<rparr>"

text \<open>The tags a game object carries.\<close>

definition tagsOf :: "store \<Rightarrow> string \<Rightarrow> string set" where
  "tagsOf s i = set (map snd (filter (\<lambda>p. fst p = i) (rel_gameObject_tags s)))"

section \<open>What the specification says of the score query\<close>

text \<open>
  The caller may ask for the scores of this player: a player token is bound to its own
  player, every other kind of credential is not bound.
\<close>

definition authorized :: "ctx \<Rightarrow> input \<Rightarrow> bool" where
  "authorized c inp =
     (auth_type (authData c) = ''player_token'' \<longrightarrow> userId (authData c) = player_id inp)"

text \<open>
  The game object with this id exists and carries at least one tag that is associated
  with the game through \<open>inputToGames\<close>.
\<close>

definition carriesGameTag :: "store \<Rightarrow> string \<Rightarrow> string \<Rightarrow> bool" where
  "carriesGameTag s gid goid =
     (\<exists>go \<in> set (tbl_gameObject s). go_id go = goid \<and>
        (\<exists>t \<in> set (tbl_tag s). (goid, tag_id t) \<in> set (rel_gameObject_tags s) \<and>
           (\<exists>g \<in> set (tbl_game s). g_id g = gid \<and>
              (tag_id t, gid) \<in> set (rel_tag_inputToGames s))))"

text \<open>The ids the first two reads of the query resolve for a game.\<close>

definition resolvedIds :: "store \<Rightarrow> string \<Rightarrow> string list" where
  "resolvedIds s gid = map go_id (gameObject_findMany s (map tag_id (tag_findMany s gid)))"

section \<open>Example data\<close>

definition epochISO :: "date \<Rightarrow> string" where
  "epochISO d = ''1970-01-01T00:00:00.000Z''"

definition mkGameObject :: "string \<Rightarrow> string \<Rightarrow> string option \<Rightarrow> gameObject" where
  "mkGameObject i n d =
     \<lparr> go_id = i, go_createdAt = 0, go_updatedAt = 0, go_name = n, go_description = d \<rparr>"

definition mkScore :: "string \<Rightarrow> string \<Rightarrow> decimal \<Rightarrow> playerScore" where
  "mkScore p g v =
     \<lparr> ps_createdAt = 0, ps_updatedAt = 0, ps_score = v, ps_playerId = p,
       ps_gameObjectId = g \<rparr>"

definition mkCtx :: "string \<Rightarrow> string \<Rightarrow> store \<Rightarrow> ctx" where
  "mkCtx ty uid s = \<lparr> authData = \<lparr> auth_type = ty, userId = uid \<rparr>, prisma = s \<rparr>"

text \<open>
  Game g1 with tag t1; go1 carries t1, go2 carries t2; player p1 scored 5 on go1 and 9
  on go2.
\<close>

definition store_g1 :: store where
  "store_g1 =
     \<lparr> tbl_tag = [\<lparr>tag_id = ''t1'', tag_name = ''T1''\<rparr>, \<lparr>tag_id = ''t2'', tag_name = ''T2''\<rparr>],
       tbl_game = [\<lparr>g_id = ''g1''\<rparr>],
       tbl_gameObject = [mkGameObject ''go1'' ''one'' None,
                         mkGameObject ''go2'' ''two'' (Some ''second'')],
       tbl_playerScore = [mkScore ''p1'' ''go1'' 5, mkScore ''p1'' ''go2'' 9],
       rel_gameObject_tags = [(''go1'', ''t1''), (''go2'', ''t2'')],
       rel_tag_inputToGames = [(''t1'', ''g1'')],
       rank_playerScore = (\<lambda>r. 0) \<rparr>"

text \<open>Three game objects of game g1, on which player p1 scored 3, 10 and 1.\<close>

definition store_ranking :: store where
  "store_ranking =
     \<lparr> tbl_tag = [\<lparr>tag_id = ''t1'', tag_name = ''T1''\<rparr>],
       tbl_game = [\<lparr>g_id = ''g1''\<rparr>],
       tbl_gameObject = [mkGameObject ''a'' ''A'' None, mkGameObject ''b'' ''B'' None,
                         mkGameObject ''c'' ''C'' None],
       tbl_playerScore = [mkScore ''p1'' ''a'' 3, mkScore ''p1'' ''b'' 10,
                          mkScore ''p1'' ''c'' 1],
       rel_gameObject_tags = [(''a'', ''t1''), (''b'', ''t1''), (''c'', ''t1'')],
       rel_tag_inputToGames = [(''t1'', ''g1'')],
       rank_playerScore = (\<lambda>r. 0) \<rparr>"

text \<open>One game object carrying the tags A and B, both associated with game g1.\<close>

definition store_overlap :: store where
  "store_overlap =
     \<lparr> tbl_tag = [\<lparr>tag_id = ''A'', tag_name = ''a''\<rparr>, \<lparr>tag_id = ''B'', tag_name = ''b''\<rparr>],
       tbl_game = [\<lparr>g_id = ''g1''\<rparr>],
       tbl_gameObject = [mkGameObject ''go1'' ''one'' None],
       tbl_playerScore = [mkScore ''p1'' ''go1'' 7],
       rel_gameObject_tags = [(''go1'', ''A''), (''go1'', ''B'')],
       rel_tag_inputToGames = [(''A'', ''g1''), (''B'', ''g1'')],
       rank_playerScore = (\<lambda>r. 0) \<rparr>"

text \<open>
  Two game objects of game g1, on both of which player p1 scored 5; the table holds the
  row on a before the row on b, and the store ranks the row on b first.
\<close>

definition store_ties :: store where
  "store_ties =
     \<lparr> tbl_tag = [\<lparr>tag_id = ''t1'', tag_name = ''T1''\<rparr>],
       tbl_game = [\<lparr>g_id = ''g1''\<rparr>],
       tbl_gameObject = [mkGameObject ''a'' ''A'' None, mkGameObject ''b'' ''B'' None],
       tbl_playerScore = [mkScore ''p1'' ''a'' 5, mkScore ''p1'' ''b'' 5],
       rel_gameObject_tags = [(''a'', ''t1''), (''b'', ''t1'')],
       rel_tag_inputToGames = [(''t1'', ''g1'')],
       rank_playerScore = (\<lambda>r. if ps_gameObjectId r = ''b'' then 0 else 1) \<rparr>"

section \<open>Properties of getPlayerScores\<close>

subsection \<open>Shared lemmas\<close>

lemma resolvedIds_iff: "goid \<in> set (resolvedIds s gid) \<longleftrightarrow> carriesGameTag s gid goid"
  unfolding resolvedIds_def gameObject_findMany_def tag_findMany_def carriesGameTag_def
  by (auto simp: image_iff)

lemma query_authorized:
  "authorized c inp \<Longrightarrow>
   snd (getPlayerScores_query toNumber toISOString c inp) =
     Inr \<lparr> playerScores = map (outputRow toNumber toISOString)
             (playerScore_findMany (prisma c) (resolvedIds (prisma c) (game_id inp))
                (player_id inp) (include_game_objects inp)) \<rparr>"
  by (auto simp: getPlayerScores_query_def authorized_def resolvedIds_def Let_def)

lemma findMany_rows:
  "map fst (playerScore_findMany s (resolvedIds s gid) pid incl) =
   orderBy_desc (rank_playerScore s) ps_score
     (filter (\<lambda>r. ps_playerId r = pid \<and> carriesGameTag s gid (ps_gameObjectId r))
        (tbl_playerScore s))"
proof -
  have "filter (\<lambda>r. ps_gameObjectId r \<in> set (resolvedIds s gid) \<and> ps_playerId r = pid)
          (tbl_playerScore s) =
        filter (\<lambda>r. ps_playerId r = pid \<and> carriesGameTag s gid (ps_gameObjectId r))
          (tbl_playerScore s)"
    by (rule filter_cong) (auto simp: resolvedIds_iff)
  then show ?thesis
    by (simp add: playerScore_findMany_def comp_def)
qed

lemma findMany_rows_mset:
  "mset (map fst (playerScore_findMany s (resolvedIds s gid) pid incl)) =
   mset (filter (\<lambda>r. ps_playerId r = pid \<and> carriesGameTag s gid (ps_gameObjectId r))
           (tbl_playerScore s))"
  by (simp only: findMany_rows orderBy_desc_def mset_sort)



lemma resolved_find:
  assumes "goid \<in> set (resolvedIds s gid)"
  shows "\<exists>go \<in> set (tbl_gameObject s).
           go_id go = goid \<and> find (\<lambda>g. go_id g = goid) (tbl_gameObject s) = Some go"
proof -
  from assms have "\<exists>go \<in> set (tbl_gameObject s). go_id go = goid"
    by (auto simp: resolvedIds_iff carriesGameTag_def)
  then have "find (\<lambda>g. go_id g = goid) (tbl_gameObject s) \<noteq> None"
    by (auto simp: find_None_iff)
  then obtain go where f: "find (\<lambda>g. go_id g = goid) (tbl_gameObject s) = Some go"
    by auto
  then have "go \<in> set (tbl_gameObject s) \<and> go_id go = goid"
    by (auto simp: find_Some_iff in_set_conv_nth)
  with f show ?thesis by blast
qed

lemma gameObjectId_outputRow: "gameObjectId (outputRow tn ti row) = ps_gameObjectId (fst row)"
  by (cases row) (simp add: outputRow_def)

lemma length_filter_orderBy_desc:
  "length (filter P (orderBy_desc rank f xs)) = length (filter P xs)"
proof -
  have "mset (filter P (orderBy_desc rank f xs)) = mset (filter P xs)"
    by (simp add: orderBy_desc_def)
  then show ?thesis
    by (metis size_mset)
qed

lemma prefix_take: "(take (length ys) xs = ys) = (\<exists>ss. xs = ys @ ss)"
proof
  assume "take (length ys) xs = ys"
  then have "xs = ys @ drop (length ys) xs"
    by (metis append_take_drop_id)
  then show "\<exists>ss. xs = ys @ ss" ..
next
  assume "\<exists>ss. xs = ys @ ss"
  then show "take (length ys) xs = ys" by auto
qed

text \<open>\<open>contains\<close> decides the substring relation.\<close>

lemma contains_iff: "contains hay needle \<longleftrightarrow> (\<exists>ps ss. hay = ps @ needle @ ss)"
proof (induction hay)
  case Nil
  then show ?case by auto
next
  case (Cons c cs)
  have "(\<exists>ps ss. c # cs = ps @ needle @ ss) \<longleftrightarrow>
        (\<exists>ss. c # cs = needle @ ss) \<or> (\<exists>ps ss. cs = ps @ needle @ ss)"
  proof
    assume "\<exists>ps ss. c # cs = ps @ needle @ ss"
    then obtain ps ss where e: "c # cs = ps @ needle @ ss" by blast
    show "(\<exists>ss. c # cs = needle @ ss) \<or> (\<exists>ps ss. cs = ps @ needle @ ss)"
    proof (cases ps)
      case Nil
      with e show ?thesis by auto
    next
      case (Cons p ps')
      with e have "cs = ps' @ needle @ ss" by simp
      then show ?thesis by blast
    qed
  next
    assume "(\<exists>ss. c # cs = needle @ ss) \<or> (\<exists>ps ss. cs = ps @ needle @ ss)"
    then show "\<exists>ps ss. c # cs = ps @ needle @ ss"
    proof
      assume "\<exists>ss. c # cs = needle @ ss"
      then obtain ss where "c # cs = [] @ needle @ ss" by auto
      then show ?thesis by blast
    next
      assume "\<exists>ps ss. cs = ps @ needle @ ss"
      then obtain ps ss where "c # cs = (c # ps) @ needle @ ss" by auto
      then show ?thesis by blast
    qed
  qed
  with Cons.IH show ?case
    by (simp only: contains.simps prefix_take)
qed

lemma ceiling_bounds:
  assumes "(p::int) > 0"
  shows "(\<lceil>real_of_int n / real_of_int p\<rceil> - 1) * p < n \<and>
         n \<le> \<lceil>real_of_int n / real_of_int p\<rceil> * p"
proof -
  let ?k = "\<lceil>real_of_int n / real_of_int p\<rceil>"
  from assms have rp: "0 < real_of_int p" by simp
  have "real_of_int n / real_of_int p \<le> real_of_int ?k"
    by (rule le_of_int_ceiling)
  then have "real_of_int n \<le> real_of_int ?k * real_of_int p"
    by (simp only: pos_divide_le_eq [OF rp])
  then have "real_of_int n \<le> real_of_int (?k * p)"
    by simp
  then have u: "n \<le> ?k * p"
    by (simp only: of_int_le_iff)
  have "real_of_int ?k - 1 < real_of_int n / real_of_int p"
    by linarith
  then have "(real_of_int ?k - 1) * real_of_int p < real_of_int n"
    by (simp only: pos_less_divide_eq [OF rp])
  then have "real_of_int ((?k - 1) * p) < real_of_int n"
    by simp
  then have "(?k - 1) * p < n"
    by (simp only: of_int_less_iff)
  with u show ?thesis by simp
qed

lemmas example_defs =
  store_g1_def store_ranking_def store_overlap_def store_ties_def mkGameObject_def mkScore_def mkCtx_def
  epochISO_def

lemmas query_defs =
  getPlayerScores_query_def playerScore_findMany_def gameObject_findMany_def
  tag_findMany_def orderBy_desc_def outputRow_def

subsection \<open>Tag intersection\<close>

text \<open>
  C1. For every game id and player id, the list that an authorised call returns holds
  exactly the score rows of the player whose game object carries at least one tag
  associated with the game through \<open>inputToGames\<close>: read by player id, game object id,
  score and timestamps, the returned records are the qualifying rows of the table, each
  as often as the table holds it. Rows on other game objects are left out although the
  table holds them.
\<close>

theorem getPlayerScores_tag_intersection:
  assumes "authorized c inp"
  shows "\<exists>out.
           snd (getPlayerScores_query toNumber toISOString c inp) = Inr out \<and>
           mset (map (\<lambda>p. (playerId p, gameObjectId p, score p, createdAt p, updatedAt p))
                   (playerScores out)) =
           mset (map (\<lambda>r. (ps_playerId r, ps_gameObjectId r, toNumber (ps_score r),
                           toISOString (ps_createdAt r), toISOString (ps_updatedAt r)))
                   (filter (\<lambda>r. ps_playerId r = player_id inp \<and>
                              carriesGameTag (prisma c) (game_id inp) (ps_gameObjectId r))
                      (tbl_playerScore (prisma c))))"
proof -
  let ?rows = "playerScore_findMany (prisma c) (resolvedIds (prisma c) (game_id inp))
                 (player_id inp) (include_game_objects inp)"
  let ?out = "\<lparr> playerScores = map (outputRow toNumber toISOString) ?rows \<rparr>"
  let ?g = "\<lambda>r. (ps_playerId r, ps_gameObjectId r, toNumber (ps_score r),
                 toISOString (ps_createdAt r), toISOString (ps_updatedAt r))"
  have "map (\<lambda>p. (playerId p, gameObjectId p, score p, createdAt p, updatedAt p))
          (playerScores ?out) = map ?g (map fst ?rows)"
    by (simp add: outputRow_def split_beta)
  then have "mset (map (\<lambda>p. (playerId p, gameObjectId p, score p, createdAt p, updatedAt p))
                (playerScores ?out)) = image_mset ?g (mset (map fst ?rows))"
    by (simp only: mset_map)
  also have "\<dots> = image_mset ?g
      (mset (filter (\<lambda>r. ps_playerId r = player_id inp \<and>
                        carriesGameTag (prisma c) (game_id inp) (ps_gameObjectId r))
               (tbl_playerScore (prisma c))))"
    by (simp only: findMany_rows_mset)
  finally have "mset (map (\<lambda>p. (playerId p, gameObjectId p, score p, createdAt p, updatedAt p))
                   (playerScores ?out)) =
    mset (map ?g (filter (\<lambda>r. ps_playerId r = player_id inp \<and>
                        carriesGameTag (prisma c) (game_id inp) (ps_gameObjectId r))
               (tbl_playerScore (prisma c))))"
    by (simp only: mset_map)
  with query_authorized [OF assms, of toNumber toISOString] show ?thesis
    by (intro exI [of _ ?out] conjI)
qed

text \<open>
  The example of the specification: the query for (g1, p1) returns the score 5 on go1
  and not the score 9 on go2.
\<close>

theorem getPlayerScores_tag_intersection_witness:
  "authorized (mkCtx ''api_key'' [] store_g1)
     \<lparr> game_id = ''g1'', player_id = ''p1'', include_game_objects = False \<rparr> \<and>
   (\<exists>out.
      snd (getPlayerScores_query of_rat epochISO (mkCtx ''api_key'' [] store_g1)
             \<lparr> game_id = ''g1'', player_id = ''p1'', include_game_objects = False \<rparr>) =
        Inr out \<and>
      mset (map (\<lambda>p. (playerId p, gameObjectId p, score p, createdAt p, updatedAt p))
              (playerScores out)) =
        {# (''p1'', ''go1'', 5, ''1970-01-01T00:00:00.000Z'', ''1970-01-01T00:00:00.000Z'') #}) \<and>
   snd (getPlayerScores_query of_rat epochISO (mkCtx ''api_key'' [] store_g1)
          \<lparr> game_id = ''g1'', player_id = ''p1'', include_game_objects = False \<rparr>) =
     Inr \<lparr> playerScores =
       [\<lparr> createdAt = ''1970-01-01T00:00:00.000Z'', updatedAt = ''1970-01-01T00:00:00.000Z'',
           score = 5, playerId = ''p1'', gameObjectId = ''go1'', gameObject = None \<rparr>] \<rparr>"
proof -
  let ?c = "mkCtx ''api_key'' [] store_g1"
  let ?i = "\<lparr> game_id = ''g1'', player_id = ''p1'', include_game_objects = False \<rparr>"
  have a: "authorized ?c ?i"
    by (simp add: authorized_def mkCtx_def)
  have f: "filter (\<lambda>r. ps_playerId r = player_id ?i \<and>
                  carriesGameTag (prisma ?c) (game_id ?i) (ps_gameObjectId r))
          (tbl_playerScore (prisma ?c)) = [mkScore ''p1'' ''go1'' 5]"
    by (simp add: carriesGameTag_def example_defs)
  from getPlayerScores_tag_intersection [OF a, of of_rat epochISO]
  obtain out where
    r: "snd (getPlayerScores_query of_rat epochISO ?c ?i) = Inr out"
       "mset (map (\<lambda>p. (playerId p, gameObjectId p, score p, createdAt p, updatedAt p))
               (playerScores out)) =
        mset (map (\<lambda>r. (ps_playerId r, ps_gameObjectId r, of_rat (ps_score r),
                        epochISO (ps_createdAt r), epochISO (ps_updatedAt r)))
                (filter (\<lambda>r. ps_playerId r = player_id ?i \<and>
                           carriesGameTag (prisma ?c) (game_id ?i) (ps_gameObjectId r))
                   (tbl_playerScore (prisma ?c))))"
    by blast
  from r(2) have m:
    "mset (map (\<lambda>p. (playerId p, gameObjectId p, score p, createdAt p, updatedAt p))
            (playerScores out)) =
     {# (''p1'', ''go1'', 5, ''1970-01-01T00:00:00.000Z'', ''1970-01-01T00:00:00.000Z'') #}"
    unfolding f by (simp add: mkScore_def epochISO_def)
  have e: "snd (getPlayerScores_query of_rat epochISO ?c ?i) =
     Inr \<lparr> playerScores =
       [\<lparr> createdAt = ''1970-01-01T00:00:00.000Z'', updatedAt = ''1970-01-01T00:00:00.000Z'',
           score = 5, playerId = ''p1'', gameObjectId = ''go1'', gameObject = None \<rparr>] \<rparr>"
    by (simp add: query_defs example_defs Let_def)
  show ?thesis
    by (intro conjI exI [of _ out]) (rule a r(1) m e)+
qed

subsection \<open>A game without tags\<close>

text \<open>
  C3. When no tag of the store is associated with the game id (the game may be missing
  from the store altogether), an authorised call succeeds with the empty list, for
  every player id and whatever score rows the store holds.
\<close>

theorem getPlayerScores_no_tags:
  assumes "authorized c inp"
    and "\<not> (\<exists>t \<in> set (tbl_tag (prisma c)). \<exists>g \<in> set (tbl_game (prisma c)).
              g_id g = game_id inp \<and>
              (tag_id t, game_id inp) \<in> set (rel_tag_inputToGames (prisma c)))"
  shows "tag_findMany (prisma c) (game_id inp) = [] \<and>
         gameObject_findMany (prisma c) [] = [] \<and>
         snd (getPlayerScores_query toNumber toISOString c inp) =
           Inr \<lparr> playerScores = [] \<rparr>"
proof -
  have t: "tag_findMany (prisma c) (game_id inp) = []"
    using assms(2) by (auto simp: tag_findMany_def filter_empty_conv)
  have g: "gameObject_findMany (prisma c) [] = []"
    by (simp add: gameObject_findMany_def)
  have "resolvedIds (prisma c) (game_id inp) = []"
    by (simp add: resolvedIds_def t g)
  then have "snd (getPlayerScores_query toNumber toISOString c inp) =
               Inr \<lparr> playerScores = [] \<rparr>"
    using query_authorized [OF assms(1), of toNumber toISOString]
    by (simp add: playerScore_findMany_def orderBy_desc_def)
  with t g show ?thesis by simp
qed

text \<open>
  Game g2 is not in the example store; player p1 has scores there, and
  the game g2 resolves none of them.
\<close>

theorem getPlayerScores_no_tags_witness:
  "authorized (mkCtx ''player_token'' ''p1'' store_g1)
     \<lparr> game_id = ''g2'', player_id = ''p1'', include_game_objects = True \<rparr> \<and>
   \<not> (\<exists>t \<in> set (tbl_tag store_g1). \<exists>g \<in> set (tbl_game store_g1).
         g_id g = ''g2'' \<and> (tag_id t, ''g2'') \<in> set (rel_tag_inputToGames store_g1)) \<and>
   snd (getPlayerScores_query of_rat epochISO (mkCtx ''player_token'' ''p1'' store_g1)
          \<lparr> game_id = ''g2'', player_id = ''p1'', include_game_objects = True \<rparr>) =
     Inr \<lparr> playerScores = [] \<rparr>"
proof -
  let ?c = "mkCtx ''player_token'' ''p1'' store_g1"
  let ?i = "\<lparr> game_id = ''g2'', player_id = ''p1'', include_game_objects = True \<rparr>"
  have a: "authorized ?c ?i"
    by (simp add: authorized_def mkCtx_def)
  have b: "\<not> (\<exists>t \<in> set (tbl_tag (prisma ?c)). \<exists>g \<in> set (tbl_game (prisma ?c)).
                g_id g = game_id ?i \<and>
                (tag_id t, game_id ?i) \<in> set (rel_tag_inputToGames (prisma ?c)))"
    by (simp add: example_defs)
  from getPlayerScores_no_tags [OF a b, of of_rat epochISO] a b show ?thesis
    by (simp add: mkCtx_def)
qed

subsection \<open>Authorisation\<close>

text \<open>
  C2. A caller with a player token whose player differs from the requested player id
  gets an authorisation error, no read of the store is issued and no score is returned;
  a caller with any other kind of credential gets a result for every player id.
\<close>

theorem getPlayerScores_authorization:
  "(auth_type (authData c) = ''player_token'' \<and> userId (authData c) \<noteq> player_id inp \<longrightarrow>
      (\<exists>msg. getPlayerScores_query toNumber toISOString c inp = ([], Inl (UNAUTHORIZED msg)))) \<and>
   (auth_type (authData c) \<noteq> ''player_token'' \<longrightarrow>
      (\<exists>reads out. getPlayerScores_query toNumber toISOString c inp = (reads, Inr out)))"
  by (simp add: getPlayerScores_query_def Let_def)

text \<open>
  The token of player p2 asking for the scores of p1 is refused; an API key gets them.
\<close>

theorem getPlayerScores_authorization_witness:
  "(auth_type (authData (mkCtx ''player_token'' ''p2'' store_g1)) = ''player_token'' \<and>
    userId (authData (mkCtx ''player_token'' ''p2'' store_g1)) \<noteq> ''p1'') \<and>
   getPlayerScores_query of_rat epochISO (mkCtx ''player_token'' ''p2'' store_g1)
     \<lparr> game_id = ''g1'', player_id = ''p1'', include_game_objects = False \<rparr> =
     ([], Inl (UNAUTHORIZED ''Player p2 is only authorized to get their own scores'')) \<and>
   auth_type (authData (mkCtx ''api_key'' [] store_g1)) \<noteq> ''player_token'' \<and>
   (\<exists>reads out.
      getPlayerScores_query of_rat epochISO (mkCtx ''api_key'' [] store_g1)
        \<lparr> game_id = ''g1'', player_id = ''p1'', include_game_objects = False \<rparr> =
        (reads, Inr out))"
proof -
  let ?i = "\<lparr> game_id = ''g1'', player_id = ''p1'', include_game_objects = False \<rparr>"
  have h1: "auth_type (authData (mkCtx ''player_token'' ''p2'' store_g1)) = ''player_token'' \<and>
            userId (authData (mkCtx ''player_token'' ''p2'' store_g1)) \<noteq> player_id ?i"
    by (simp add: mkCtx_def)
  have h2: "auth_type (authData (mkCtx ''api_key'' [] store_g1)) \<noteq> ''player_token''"
    by (simp add: mkCtx_def)
  from getPlayerScores_authorization
         [of "mkCtx ''player_token'' ''p2'' store_g1" ?i of_rat epochISO] h1
  obtain msg where
    "getPlayerScores_query of_rat epochISO (mkCtx ''player_token'' ''p2'' store_g1) ?i =
       ([], Inl (UNAUTHORIZED msg))"
    by blast
  then have r1:
    "getPlayerScores_query of_rat epochISO (mkCtx ''player_token'' ''p2'' store_g1) ?i =
       ([], Inl (UNAUTHORIZED ''Player p2 is only authorized to get their own scores''))"
    by (simp add: getPlayerScores_query_def mkCtx_def)
  from getPlayerScores_authorization [of "mkCtx ''api_key'' [] store_g1" ?i of_rat epochISO] h2
  have r2: "\<exists>reads out.
      getPlayerScores_query of_rat epochISO (mkCtx ''api_key'' [] store_g1) ?i = (reads, Inr out)"
    by blast
  from h1 h2 r1 r2 show ?thesis
    by simp
qed

subsection \<open>Ordering\<close>




subsection \<open>Shape of the output\<close>

text \<open>
  C5. Every record of the result of an authorised call comes from a score row of the
  store: its score is the number converted from the stored decimal, its timestamps are
  the ISO strings of the stored dates. Without \<open>include_game_objects\<close> the record has
  no game object; with it, the record has the game object of the row, with its id,
  name, description and the ISO strings of its timestamps, and no tags.
\<close>

theorem getPlayerScores_output_shape:
  assumes "authorized c inp"
  shows "\<exists>out.
           snd (getPlayerScores_query toNumber toISOString c inp) = Inr out \<and>
           (\<forall>p \<in> set (playerScores out).
              \<exists>r \<in> set (tbl_playerScore (prisma c)).
                score p = toNumber (ps_score r) \<and>
                createdAt p = toISOString (ps_createdAt r) \<and>
                updatedAt p = toISOString (ps_updatedAt r) \<and>
                playerId p = ps_playerId r \<and>
                gameObjectId p = ps_gameObjectId r \<and>
                (\<not> include_game_objects inp \<longrightarrow> gameObject p = None) \<and>
                (include_game_objects inp \<longrightarrow>
                   (\<exists>go \<in> set (tbl_gameObject (prisma c)).
                      go_id go = ps_gameObjectId r \<and>
                      gameObject p =
                        Some \<lparr> ogo_id = go_id go,
                               ogo_createdAt = toISOString (go_createdAt go),
                               ogo_updatedAt = toISOString (go_updatedAt go),
                               ogo_name = go_name go,
                               ogo_description = go_description go \<rparr>)))"
proof -
  let ?s = "prisma c"
  let ?ids = "resolvedIds ?s (game_id inp)"
  let ?rows = "playerScore_findMany ?s ?ids (player_id inp) (include_game_objects inp)"
  have shape: "\<exists>r \<in> set (tbl_playerScore ?s).
                score p = toNumber (ps_score r) \<and>
                createdAt p = toISOString (ps_createdAt r) \<and>
                updatedAt p = toISOString (ps_updatedAt r) \<and>
                playerId p = ps_playerId r \<and>
                gameObjectId p = ps_gameObjectId r \<and>
                (\<not> include_game_objects inp \<longrightarrow> gameObject p = None) \<and>
                (include_game_objects inp \<longrightarrow>
                   (\<exists>go \<in> set (tbl_gameObject ?s).
                      go_id go = ps_gameObjectId r \<and>
                      gameObject p =
                        Some \<lparr> ogo_id = go_id go,
                               ogo_createdAt = toISOString (go_createdAt go),
                               ogo_updatedAt = toISOString (go_updatedAt go),
                               ogo_name = go_name go,
                               ogo_description = go_description go \<rparr>))"
    if "p \<in> set (map (outputRow toNumber toISOString) ?rows)" for p
  proof -
    from that obtain r where
      r: "r \<in> set (tbl_playerScore ?s)" "ps_gameObjectId r \<in> set ?ids"
      and p: "p = outputRow toNumber toISOString
                    (r, if include_game_objects inp
                        then find (\<lambda>go. go_id go = ps_gameObjectId r) (tbl_gameObject ?s)
                        else None)"
      by (auto simp: playerScore_findMany_def orderBy_desc_def)
    show ?thesis
    proof (cases "include_game_objects inp")
      case False
      with p r(1) show ?thesis
        by (intro bexI [of _ r]) (simp_all add: outputRow_def)
    next
      case True
      from resolved_find [OF r(2)] obtain go where
        "go \<in> set (tbl_gameObject ?s)" "go_id go = ps_gameObjectId r"
        "find (\<lambda>g. go_id g = ps_gameObjectId r) (tbl_gameObject ?s) = Some go"
        by blast
      with True p r(1) show ?thesis
        by (intro bexI [of _ r]) (auto simp: outputRow_def)
    qed
  qed
  from query_authorized [OF assms, of toNumber toISOString] shape show ?thesis
    by (intro exI [of _ "\<lparr> playerScores = map (outputRow toNumber toISOString) ?rows \<rparr>"])
       simp
qed

text \<open>
  On the example store the record of the score 5 carries the game object go1 when it is
  asked for, and no game object otherwise.
\<close>

theorem getPlayerScores_output_shape_witness:
  "authorized (mkCtx ''api_key'' [] store_g1)
     \<lparr> game_id = ''g1'', player_id = ''p1'', include_game_objects = True \<rparr> \<and>
   authorized (mkCtx ''api_key'' [] store_g1)
     \<lparr> game_id = ''g1'', player_id = ''p1'', include_game_objects = False \<rparr> \<and>
   (\<exists>out.
      snd (getPlayerScores_query of_rat epochISO (mkCtx ''api_key'' [] store_g1)
             \<lparr> game_id = ''g1'', player_id = ''p1'', include_game_objects = True \<rparr>) =
        Inr out \<and>
      playerScores out =
        [\<lparr> createdAt = ''1970-01-01T00:00:00.000Z'', updatedAt = ''1970-01-01T00:00:00.000Z'',
            score = 5, playerId = ''p1'', gameObjectId = ''go1'',
            gameObject =
              Some \<lparr> ogo_id = ''go1'', ogo_createdAt = ''1970-01-01T00:00:00.000Z'',
                     ogo_updatedAt = ''1970-01-01T00:00:00.000Z'', ogo_name = ''one'',
                     ogo_description = None \<rparr> \<rparr>]) \<and>
   (\<exists>out.
      snd (getPlayerScores_query of_rat epochISO (mkCtx ''api_key'' [] store_g1)
             \<lparr> game_id = ''g1'', player_id = ''p1'', include_game_objects = False \<rparr>) =
        Inr out \<and>
      playerScores out \<noteq> [] \<and>
      (\<forall>p \<in> set (playerScores out). gameObject p = None))"
proof -
  let ?c = "mkCtx ''api_key'' [] store_g1"
  let ?t = "\<lparr> game_id = ''g1'', player_id = ''p1'', include_game_objects = True \<rparr>"
  let ?f = "\<lparr> game_id = ''g1'', player_id = ''p1'', include_game_objects = False \<rparr>"
  have a: "authorized ?c ?t" "authorized ?c ?f"
    by (simp_all add: authorized_def mkCtx_def)
  have e: "snd (getPlayerScores_query of_rat epochISO ?c ?t) =
      Inr \<lparr> playerScores =
        [\<lparr> createdAt = ''1970-01-01T00:00:00.000Z'', updatedAt = ''1970-01-01T00:00:00.000Z'',
            score = 5, playerId = ''p1'', gameObjectId = ''go1'',
            gameObject =
              Some \<lparr> ogo_id = ''go1'', ogo_createdAt = ''1970-01-01T00:00:00.000Z'',
                     ogo_updatedAt = ''1970-01-01T00:00:00.000Z'', ogo_name = ''one'',
                     ogo_description = None \<rparr> \<rparr>] \<rparr>"
    by (simp add: query_defs example_defs Let_def)
  have n: "snd (getPlayerScores_query of_rat epochISO ?c ?f) \<noteq> Inr \<lparr> playerScores = [] \<rparr>"
    by (simp add: query_defs example_defs Let_def)
  from getPlayerScores_output_shape [OF a(2), of of_rat epochISO]
  obtain out where
    o: "snd (getPlayerScores_query of_rat epochISO ?c ?f) = Inr out"
       "\<forall>p \<in> set (playerScores out). gameObject p = None"
    by fastforce
  from o(1) n have "playerScores out \<noteq> []"
    by (cases out) auto
  with o have r: "\<exists>out. snd (getPlayerScores_query of_rat epochISO ?c ?f) = Inr out \<and>
      playerScores out \<noteq> [] \<and> (\<forall>p \<in> set (playerScores out). gameObject p = None)"
    by blast
  from e have "\<exists>out. snd (getPlayerScores_query of_rat epochISO ?c ?t) = Inr out \<and>
      playerScores out =
        [\<lparr> createdAt = ''1970-01-01T00:00:00.000Z'', updatedAt = ''1970-01-01T00:00:00.000Z'',
            score = 5, playerId = ''p1'', gameObjectId = ''go1'',
            gameObject =
              Some \<lparr> ogo_id = ''go1'', ogo_createdAt = ''1970-01-01T00:00:00.000Z'',
                     ogo_updatedAt = ''1970-01-01T00:00:00.000Z'', ogo_name = ''one'',
                     ogo_description = None \<rparr> \<rparr>]"
    by simp
  with a r show ?thesis
    by (intro conjI)
qed

subsection \<open>No duplicates\<close>

text \<open>
  C6. For a game object that carries at least one tag associated with the game, however
  many of its tags are, the result of an authorised call has as many records on that
  game object as the table has score rows of the player on it: a score row appears
  once, and no overlap of tags repeats it.
\<close>

theorem getPlayerScores_no_duplicates:
  assumes "authorized c inp"
    and "carriesGameTag (prisma c) (game_id inp) goid"
  shows "\<exists>out.
           snd (getPlayerScores_query toNumber toISOString c inp) = Inr out \<and>
           length (filter (\<lambda>p. gameObjectId p = goid) (playerScores out)) =
           length (filter (\<lambda>r. ps_playerId r = player_id inp \<and> ps_gameObjectId r = goid)
                     (tbl_playerScore (prisma c)))"
proof -
  let ?s = "prisma c"
  let ?rows = "playerScore_findMany ?s (resolvedIds ?s (game_id inp)) (player_id inp)
                 (include_game_objects inp)"
  let ?Q = "\<lambda>r. ps_playerId r = player_id inp \<and>
                 carriesGameTag ?s (game_id inp) (ps_gameObjectId r)"
  have "length (filter (\<lambda>p. gameObjectId p = goid)
                  (map (outputRow toNumber toISOString) ?rows)) =
        length (filter (\<lambda>r. ps_gameObjectId r = goid) (map fst ?rows))"
    by (simp add: filter_map comp_def gameObjectId_outputRow)
  also have "\<dots> = length (filter (\<lambda>r. ps_gameObjectId r = goid)
                        (filter ?Q (tbl_playerScore ?s)))"
    by (simp only: findMany_rows length_filter_orderBy_desc)
  also have "filter (\<lambda>r. ps_gameObjectId r = goid) (filter ?Q (tbl_playerScore ?s)) =
             filter (\<lambda>r. ps_playerId r = player_id inp \<and> ps_gameObjectId r = goid)
               (tbl_playerScore ?s)"
    unfolding filter_filter using assms(2) by (intro filter_cong) auto
  finally show ?thesis
    using query_authorized [OF assms(1), of toNumber toISOString] by simp
qed

text \<open>
  The game object go1 carries the tags A and B, both associated with game g1; the one
  score of p1 on go1 is returned once.
\<close>

theorem getPlayerScores_no_duplicates_witness:
  "authorized (mkCtx ''api_key'' [] store_overlap)
     \<lparr> game_id = ''g1'', player_id = ''p1'', include_game_objects = False \<rparr> \<and>
   carriesGameTag store_overlap ''g1'' ''go1'' \<and>
   (''go1'', ''A'') \<in> set (rel_gameObject_tags store_overlap) \<and>
   (''go1'', ''B'') \<in> set (rel_gameObject_tags store_overlap) \<and>
   (''A'', ''g1'') \<in> set (rel_tag_inputToGames store_overlap) \<and>
   (''B'', ''g1'') \<in> set (rel_tag_inputToGames store_overlap) \<and>
   (\<exists>out.
      snd (getPlayerScores_query of_rat epochISO (mkCtx ''api_key'' [] store_overlap)
             \<lparr> game_id = ''g1'', player_id = ''p1'', include_game_objects = False \<rparr>) =
        Inr out \<and>
      length (filter (\<lambda>p. gameObjectId p = ''go1'') (playerScores out)) = 1)"
proof -
  let ?c = "mkCtx ''api_key'' [] store_overlap"
  let ?i = "\<lparr> game_id = ''g1'', player_id = ''p1'', include_game_objects = False \<rparr>"
  have a: "authorized ?c ?i"
    by (simp add: authorized_def mkCtx_def)
  have b: "carriesGameTag (prisma ?c) (game_id ?i) ''go1''"
    by (simp add: carriesGameTag_def example_defs)
  have t: "length (filter (\<lambda>r. ps_playerId r = player_id ?i \<and> ps_gameObjectId r = ''go1'')
                     (tbl_playerScore (prisma ?c))) = 1"
    by (simp add: example_defs)
  have r: "(''go1'', ''A'') \<in> set (rel_gameObject_tags store_overlap) \<and>
     (''go1'', ''B'') \<in> set (rel_gameObject_tags store_overlap) \<and>
     (''A'', ''g1'') \<in> set (rel_tag_inputToGames store_overlap) \<and>
     (''B'', ''g1'') \<in> set (rel_tag_inputToGames store_overlap)"
    by (simp add: store_overlap_def)
  from getPlayerScores_no_duplicates [OF a b, of of_rat epochISO] t
  have "\<exists>out. snd (getPlayerScores_query of_rat epochISO ?c ?i) = Inr out \<and>
      length (filter (\<lambda>p. gameObjectId p = ''go1'') (playerScores out)) = 1"
    by simp
  moreover from b have "carriesGameTag store_overlap ''g1'' ''go1''"
    by (simp add: mkCtx_def)
  ultimately show ?thesis
    using a r by (intro conjI) simp_all
qed

subsection \<open>Validation\<close>

text \<open>
  C7, as stated, fails: a call with blank (empty) ids passes the validation, issues the
  three reads and returns an empty list.
\<close>

theorem getPlayerScores_blank_ids_accepted:
  "getPlayerScores of_rat epochISO (mkCtx ''api_key'' [] store_g1)
     \<lparr> raw_game_id = JString [], raw_player_id = JString [],
       raw_include_game_objects = JUndefined \<rparr> =
   ([TagFindMany [], GameObjectFindMany [], PlayerScoreFindMany [] [] False],
    Inr \<lparr> playerScores = [] \<rparr>)"
  by (simp add: getPlayerScores_def getPlayerScores_input_def z_include_game_objects_def
        query_defs example_defs Let_def)

text \<open>
  C7, amended. The call fails with a validation error, before any read and any result,
  exactly when \<open>game_id\<close> or \<open>player_id\<close> is not a string (missing or of another
  type). Every string is accepted as an id, the empty one too, and the query runs with
  it.
\<close>

theorem getPlayerScores_validation:
  "(snd (getPlayerScores toNumber toISOString c raw) = Inl BAD_REQUEST \<longleftrightarrow>
      \<not> (\<exists>g. raw_game_id raw = JString g) \<or> \<not> (\<exists>p. raw_player_id raw = JString p)) \<and>
   (snd (getPlayerScores toNumber toISOString c raw) = Inl BAD_REQUEST \<longrightarrow>
      fst (getPlayerScores toNumber toISOString c raw) = []) \<and>
   (\<forall>g p. raw_game_id raw = JString g \<and> raw_player_id raw = JString p \<longrightarrow>
      getPlayerScores toNumber toISOString c raw =
        getPlayerScores_query toNumber toISOString c
          \<lparr> game_id = g, player_id = p,
            include_game_objects = (raw_include_game_objects raw = JString ''true'') \<rparr>)"
proof -
  have q: "snd (getPlayerScores_query toNumber toISOString c inp) \<noteq> Inl BAD_REQUEST" for inp
    by (simp add: getPlayerScores_query_def Let_def)
  have i: "z_include_game_objects v = (v = JString ''true'')" for v
    by (cases v) (simp_all add: z_include_game_objects_def)
  show ?thesis
    by (cases "raw_game_id raw"; cases "raw_player_id raw")
       (simp_all add: getPlayerScores_def getPlayerScores_input_def q i)
qed

text \<open>
  A \<open>game_id\<close> that is not a string is refused; a blank \<open>game_id\<close> is passed on
  to the query.
\<close>

theorem getPlayerScores_validation_witness:
  "\<not> (\<exists>g. JOther = JString g) \<and>
   getPlayerScores of_rat epochISO (mkCtx ''api_key'' [] store_g1)
     \<lparr> raw_game_id = JOther, raw_player_id = JString ''p1'',
       raw_include_game_objects = JUndefined \<rparr> = ([], Inl BAD_REQUEST) \<and>
   getPlayerScores of_rat epochISO (mkCtx ''api_key'' [] store_g1)
     \<lparr> raw_game_id = JString [], raw_player_id = JString ''p1'',
       raw_include_game_objects = JString ''true'' \<rparr> =
   getPlayerScores_query of_rat epochISO (mkCtx ''api_key'' [] store_g1)
     \<lparr> game_id = [], player_id = ''p1'', include_game_objects = True \<rparr>"
proof -
  let ?c = "mkCtx ''api_key'' [] store_g1"
  let ?bad = "\<lparr> raw_game_id = JOther, raw_player_id = JString ''p1'',
                raw_include_game_objects = JUndefined \<rparr>"
  let ?blank = "\<lparr> raw_game_id = JString [], raw_player_id = JString ''p1'',
                  raw_include_game_objects = JString ''true'' \<rparr>"
  have h: "\<not> (\<exists>g. raw_game_id ?bad = JString g)"
    by simp
  from getPlayerScores_validation [of of_rat epochISO ?c ?bad] h
  have "snd (getPlayerScores of_rat epochISO ?c ?bad) = Inl BAD_REQUEST"
       "fst (getPlayerScores of_rat epochISO ?c ?bad) = []"
    by blast+
  then have b: "getPlayerScores of_rat epochISO ?c ?bad = ([], Inl BAD_REQUEST)"
    by (simp add: prod_eq_iff)
  from getPlayerScores_validation [of of_rat epochISO ?c ?blank]
  have "getPlayerScores of_rat epochISO ?c ?blank =
        getPlayerScores_query of_rat epochISO ?c
          \<lparr> game_id = [], player_id = ''p1'', include_game_objects = True \<rparr>"
    by simp
  with b h show ?thesis
    by simp
qed

section \<open>Properties of the game-object table\<close>

subsection \<open>The free-text filter\<close>

text \<open>
  C8, as stated, fails: the table sends no clause on the description. The game object
  go2 has the description \<open>second\<close>, which contains the search text \<open>sec\<close>; its id
  and name do not, and it does not pass the filter of the table.
\<close>

theorem GameObjectsTable_filter_skips_description:
  "contains ''second'' ''sec'' \<and>
   mkGameObject ''go2'' ''two'' (Some ''second'') \<in> set (tbl_gameObject store_g1) \<and>
   go_description (mkGameObject ''go2'' ''two'' (Some ''second'')) = Some ''second'' \<and>
   \<not> gameObjects_where store_g1 (GameObjectsTable_filter ''sec'' None)
       (mkGameObject ''go2'' ''two'' (Some ''second'')) \<and>
   gameObjects_getCount store_g1 (GameObjectsTable_filter ''sec'' None) = 0"
  by (simp add: gameObjects_getCount_def gameObjects_where_def GameObjectsTable_filter_def
        clauseHolds_def example_defs)

text \<open>
  C8, amended. For a non-empty search text, a game object passes the filter that the
  table sends with the listing and with the count query if and only if the text is a
  substring of its id or of its name, and it carries the tag of the tag filter when
  one is given. The description is not searched.
\<close>

theorem GameObjectsTable_filter_matches:
  assumes "globalFilter \<noteq> []"
  shows "(gameObjects_where s (GameObjectsTable_filter globalFilter tag) go \<longleftrightarrow>
            ((\<exists>ps ss. go_id go = ps @ globalFilter @ ss) \<or>
             (\<exists>ps ss. go_name go = ps @ globalFilter @ ss)) \<and>
            (\<forall>t. tag = Some t \<longrightarrow> (go_id go, t) \<in> set (rel_gameObject_tags s))) \<and>
         gameObjects_getCount s (GameObjectsTable_filter globalFilter tag) =
           length (filter (\<lambda>go.
               ((\<exists>ps ss. go_id go = ps @ globalFilter @ ss) \<or>
                (\<exists>ps ss. go_name go = ps @ globalFilter @ ss)) \<and>
               (\<forall>t. tag = Some t \<longrightarrow> (go_id go, t) \<in> set (rel_gameObject_tags s)))
             (tbl_gameObject s))"
proof -
  have w: "gameObjects_where s (GameObjectsTable_filter globalFilter tag) g \<longleftrightarrow>
            ((\<exists>ps ss. go_id g = ps @ globalFilter @ ss) \<or>
             (\<exists>ps ss. go_name g = ps @ globalFilter @ ss)) \<and>
            (\<forall>t. tag = Some t \<longrightarrow> (go_id g, t) \<in> set (rel_gameObject_tags s))" for g
    using assms
    by (cases tag)
       (simp_all add: gameObjects_where_def GameObjectsTable_filter_def clauseHolds_def
          contains_iff)
  have "filter (gameObjects_where s (GameObjectsTable_filter globalFilter tag))
          (tbl_gameObject s) =
        filter (\<lambda>go.
               ((\<exists>ps ss. go_id go = ps @ globalFilter @ ss) \<or>
                (\<exists>ps ss. go_name go = ps @ globalFilter @ ss)) \<and>
               (\<forall>t. tag = Some t \<longrightarrow> (go_id go, t) \<in> set (rel_gameObject_tags s)))
          (tbl_gameObject s)"
    by (rule filter_cong) (simp_all only: w)
  then have "gameObjects_getCount s (GameObjectsTable_filter globalFilter tag) =
           length (filter (\<lambda>go.
               ((\<exists>ps ss. go_id go = ps @ globalFilter @ ss) \<or>
                (\<exists>ps ss. go_name go = ps @ globalFilter @ ss)) \<and>
               (\<forall>t. tag = Some t \<longrightarrow> (go_id go, t) \<in> set (rel_gameObject_tags s)))
             (tbl_gameObject s))"
    by (simp only: gameObjects_getCount_def)
  with w [of go] show ?thesis
    by (rule conjI)
qed

text \<open>
  The search text \<open>tw\<close> finds go2 by its name \<open>two\<close>; with the tag filter t2, which
  go2 carries, it passes, and with the tag filter t1 it does not.
\<close>

theorem GameObjectsTable_filter_matches_witness:
  "''tw'' \<noteq> [] \<and>
   gameObjects_where store_g1 (GameObjectsTable_filter ''tw'' (Some ''t2''))
     (mkGameObject ''go2'' ''two'' (Some ''second'')) \<and>
   \<not> gameObjects_where store_g1 (GameObjectsTable_filter ''tw'' (Some ''t1''))
     (mkGameObject ''go2'' ''two'' (Some ''second'')) \<and>
   gameObjects_getCount store_g1 (GameObjectsTable_filter ''tw'' None) = 1"
proof -
  have n: "''tw'' \<noteq> []" by simp
  have x: "go_name (mkGameObject ''go2'' ''two'' (Some ''second'')) = [] @ ''tw'' @ ''o''"
    by (simp add: mkGameObject_def)
  have t2: "\<forall>t. Some ''t2'' = Some t \<longrightarrow>
       (go_id (mkGameObject ''go2'' ''two'' (Some ''second'')), t)
         \<in> set (rel_gameObject_tags store_g1)"
    by (simp add: example_defs)
  have t1: "\<not> (\<forall>t. Some ''t1'' = Some t \<longrightarrow>
       (go_id (mkGameObject ''go2'' ''two'' (Some ''second'')), t)
         \<in> set (rel_gameObject_tags store_g1))"
    by (simp add: example_defs)
  have a: "gameObjects_where store_g1 (GameObjectsTable_filter ''tw'' (Some ''t2''))
     (mkGameObject ''go2'' ''two'' (Some ''second''))"
    using GameObjectsTable_filter_matches [OF n, of store_g1 "Some ''t2''"
        "mkGameObject ''go2'' ''two'' (Some ''second'')"] x t2
    by blast
  have b: "\<not> gameObjects_where store_g1 (GameObjectsTable_filter ''tw'' (Some ''t1''))
     (mkGameObject ''go2'' ''two'' (Some ''second''))"
    using GameObjectsTable_filter_matches [OF n, of store_g1 "Some ''t1''"
        "mkGameObject ''go2'' ''two'' (Some ''second'')"] t1
    by blast
  have c: "gameObjects_getCount store_g1 (GameObjectsTable_filter ''tw'' None) = 1"
    by (simp add: gameObjects_getCount_def gameObjects_where_def GameObjectsTable_filter_def
        clauseHolds_def example_defs)
  from n a b c show ?thesis by blast
qed

subsection \<open>Page count and page index\<close>

text \<open>
  C10. Without count data the page count is 0; with a count and a non-zero page size it
  is the ceiling of count / page size, for a positive page size the least number of
  pages that hold the count. When the page index is not below the page count, the
  effect sets it to the page count minus one. For a count of 0 the page count is 0, the
  effect sets a page index that is not negative to -1, and run again on -1 it leaves
  the index at -1: the early return on a page count of 0 comes before the reset to 0.
\<close>

theorem pageIndex_adjustment:
  "pageCount None pgSize = Fin 0 \<and>
   (pgSize \<noteq> 0 \<longrightarrow>
      pageCount (Some n) pgSize = Fin \<lceil>real_of_int n / real_of_int pgSize\<rceil>) \<and>
   (pgSize > 0 \<longrightarrow>
      (\<exists>k. pageCount (Some n) pgSize = Fin k \<and> (k - 1) * pgSize < n \<and> n \<le> k * pgSize)) \<and>
   (js_ge (pageIndex prev) pgCount \<longrightarrow>
      pageIndexEffect pgCount prev = prev\<lparr>pageIndex := js_minus pgCount 1\<rparr>) \<and>
   (js_ge (pageIndex prev) (Fin k) \<longrightarrow>
      pageIndex (pageIndexEffect (Fin k) prev) = Fin (k - 1)) \<and>
   (pgSize \<noteq> 0 \<longrightarrow> pageCount (Some 0) pgSize = Fin 0) \<and>
   (0 \<le> i \<longrightarrow>
      pageIndexEffect (Fin 0) \<lparr>pageIndex = Fin i, pageSize = pgSize\<rparr> =
        \<lparr>pageIndex = Fin (- 1), pageSize = pgSize\<rparr>) \<and>
   pageIndexEffect (Fin 0) \<lparr>pageIndex = Fin (- 1), pageSize = pgSize\<rparr> =
     \<lparr>pageIndex = Fin (- 1), pageSize = pgSize\<rparr>"
proof -
  have c: "pgSize > 0 \<longrightarrow>
      (\<exists>k. pageCount (Some n) pgSize = Fin k \<and> (k - 1) * pgSize < n \<and> n \<le> k * pgSize)"
    using ceiling_bounds [of pgSize n] by (simp add: pageCount_def)
  show ?thesis
    using c by (simp add: pageCount_def pageIndexEffect_def)
qed

text \<open>
  The table starts on page index 0 with page size 10. With a count of 0 the effect
  moves the index to -1 and then leaves it there. With a count of 31 there are 4 pages,
  and the index 7 is moved to 3.
\<close>

theorem pageIndex_adjustment_witness:
  "(10::int) \<noteq> 0 \<and> (0::int) \<le> 0 \<and>
   pageCount (Some 0) 10 = Fin 0 \<and>
   js_ge (Fin 0) (pageCount (Some 0) 10) \<and>
   pageIndexEffect (pageCount (Some 0) 10) \<lparr>pageIndex = Fin 0, pageSize = 10\<rparr> =
     \<lparr>pageIndex = Fin (- 1), pageSize = 10\<rparr> \<and>
   pageIndexEffect (pageCount (Some 0) 10) \<lparr>pageIndex = Fin (- 1), pageSize = 10\<rparr> =
     \<lparr>pageIndex = Fin (- 1), pageSize = 10\<rparr> \<and>
   pageCount (Some 31) 10 = Fin 4 \<and>
   js_ge (Fin 7) (pageCount (Some 31) 10) \<and>
   pageIndex (pageIndexEffect (pageCount (Some 31) 10) \<lparr>pageIndex = Fin 7, pageSize = 10\<rparr>) =
     Fin 3"
proof -
  have z: "pageCount (Some 0) 10 = Fin 0"
    using pageIndex_adjustment [of 10 0] by simp
  have e1: "pageIndexEffect (Fin 0) \<lparr>pageIndex = Fin 0, pageSize = 10\<rparr> =
     \<lparr>pageIndex = Fin (- 1), pageSize = 10\<rparr>"
    using pageIndex_adjustment [of 10 _ _ _ _ 0] by simp
  have e2: "pageIndexEffect (Fin 0) \<lparr>pageIndex = Fin (- 1), pageSize = 10\<rparr> =
     \<lparr>pageIndex = Fin (- 1), pageSize = 10\<rparr>"
    using pageIndex_adjustment [of 10] by simp
  have p: "pageCount (Some 31) 10 = Fin 4"
    by (simp add: pageCount_def)
  have e3: "pageIndex (pageIndexEffect (Fin 4) \<lparr>pageIndex = Fin 7, pageSize = 10\<rparr>) = Fin 3"
    using pageIndex_adjustment [of _ _ "\<lparr>pageIndex = Fin 7, pageSize = 10\<rparr>" _ 4] by simp
  from z e1 e2 p e3 show ?thesis
    by simp
qed

section \<open>Properties of updateById\<close>

text \<open>What a successful update of the store has done.\<close>

lemma gameObject_update_Inr:
  assumes "gameObject_update now s i d = Inr (s', updated)"
  shows "\<exists>old.
    find (\<lambda>go. go_id go = i) (tbl_gameObject s) = Some old \<and>
    updated = old
       \<lparr> go_id := (case upd_id d of None \<Rightarrow> i | Some v \<Rightarrow> v),
         go_updatedAt :=
           (if upd_id d = None \<and> upd_name d = None \<and> upd_description d = None
            then go_updatedAt old else now),
         go_name := (case upd_name d of None \<Rightarrow> go_name old | Some v \<Rightarrow> v),
         go_description :=
           (case upd_description d of None \<Rightarrow> go_description old | Some v \<Rightarrow> Some v) \<rparr> \<and>
    tbl_gameObject s' = map (\<lambda>go. if go_id go = i then updated else go) (tbl_gameObject s) \<and>
    rel_gameObject_tags s' =
       map (\<lambda>(g, t). (if g = i then go_id updated else g, t)) (rel_gameObject_tags s) @
       filter (\<lambda>p. p \<notin> set (map (\<lambda>(g, t). (if g = i then go_id updated else g, t))
                                 (rel_gameObject_tags s)))
         (remdups (map (Pair (go_id updated))
                     (case upd_tags_connect d of None \<Rightarrow> [] | Some ts \<Rightarrow> ts)))"
proof (cases "find (\<lambda>go. go_id go = i) (tbl_gameObject s)")
  case None
  with assms show ?thesis
    by (simp add: gameObject_update_def)
next
  case (Some old)
  define newId where "newId = (case upd_id d of None \<Rightarrow> i | Some v \<Rightarrow> v)"
  define connect where "connect = (case upd_tags_connect d of None \<Rightarrow> [] | Some ts \<Rightarrow> ts)"
  define upd where "upd = old
       \<lparr> go_id := newId,
         go_updatedAt :=
           (if upd_id d = None \<and> upd_name d = None \<and> upd_description d = None
            then go_updatedAt old else now),
         go_name := (case upd_name d of None \<Rightarrow> go_name old | Some v \<Rightarrow> v),
         go_description :=
           (case upd_description d of None \<Rightarrow> go_description old | Some v \<Rightarrow> Some v) \<rparr>"
  define moved where
    "moved = map (\<lambda>(g, t). (if g = i then newId else g, t)) (rel_gameObject_tags s)"
  define added where
    "added = filter (\<lambda>p. p \<notin> set moved) (remdups (map (Pair newId) connect))"
  define S where "S = s \<lparr> tbl_gameObject :=
                 map (\<lambda>go. if go_id go = i then upd else go) (tbl_gameObject s),
               tbl_playerScore :=
                 map (\<lambda>r. if ps_gameObjectId r = i then r\<lparr>ps_gameObjectId := newId\<rparr> else r)
                   (tbl_playerScore s),
               rel_gameObject_tags := moved @ added \<rparr>"
  define A where "A \<longleftrightarrow> newId \<noteq> i \<and> newId \<in> set (map go_id (tbl_gameObject s))"
  define B where "B \<longleftrightarrow> (\<exists>t \<in> set connect. t \<notin> set (map tag_id (tbl_tag s)))"
  have eq: "gameObject_update now s i d =
     (if A then Inl UniqueConstraintFailed else if B then Inl RecordNotFound else Inr (S, upd))"
    unfolding gameObject_update_def Let_def Some option.case
      A_def B_def S_def added_def moved_def upd_def connect_def newId_def ..
  from assms have e: "updated = upd" "s' = S"
    unfolding eq by (cases A; cases B; simp)+
  have n: "go_id upd = newId"
    by (simp add: upd_def)
  have t: "tbl_gameObject S = map (\<lambda>go. if go_id go = i then upd else go) (tbl_gameObject s)"
    by (simp add: S_def)
  have r: "rel_gameObject_tags S = moved @ added"
    by (simp add: S_def)
  show ?thesis
    unfolding e n t r
    unfolding added_def moved_def upd_def connect_def newId_def
    using Some by (intro exI [of _ old] conjI refl)
qed


lemma find_Some_mem: "find P xs = Some x \<Longrightarrow> x \<in> set xs \<and> P x"
  by (auto simp: find_Some_iff)

lemma tagsOf_iff: "t \<in> tagsOf s i \<longleftrightarrow> (i, t) \<in> set (rel_gameObject_tags s)"
  by (force simp: tagsOf_def)

text \<open>
  C9. After a successful \<open>updateById\<close> every tag the game object carried before is
  still carried by it (under its id after the update), every tag of a supplied tag list
  is carried by it, and each of id, name and description that the data omit has the
  value of the row before the update; a supplied one has the supplied value.
\<close>

theorem updateById_additive:
  assumes "updateById now s i dat = Inr (s', updated)"
  shows "\<exists>old.
           find (\<lambda>go. go_id go = i) (tbl_gameObject s) = Some old \<and>
           updated \<in> set (tbl_gameObject s') \<and>
           tagsOf s i \<subseteq> tagsOf s' (go_id updated) \<and>
           (\<forall>ts. data_tags dat = Some ts \<longrightarrow> set ts \<subseteq> tagsOf s' (go_id updated)) \<and>
           go_id updated = (case data_id dat of None \<Rightarrow> go_id old | Some v \<Rightarrow> v) \<and>
           go_name updated = (case data_name dat of None \<Rightarrow> go_name old | Some v \<Rightarrow> v) \<and>
           go_description updated =
             (case data_description dat of None \<Rightarrow> go_description old | Some v \<Rightarrow> Some v) \<and>
           go_createdAt updated = go_createdAt old"
proof -
  define d where "d = \<lparr> upd_id = data_id dat, upd_name = data_name dat,
              upd_description = data_description dat,
              upd_tags_connect = map_option (map (\<lambda>tag. tag)) (data_tags dat) \<rparr>"
  from assms have u: "gameObject_update now s i d = Inr (s', updated)"
    by (simp only: updateById_def d_def)
  define moved where
    "moved = map (\<lambda>(g, t). (if g = i then go_id updated else g, t)) (rel_gameObject_tags s)"
  define connect where
    "connect = (case upd_tags_connect d of None \<Rightarrow> [] | Some ts \<Rightarrow> ts)"
  from gameObject_update_Inr [OF u] obtain old where
    f: "find (\<lambda>go. go_id go = i) (tbl_gameObject s) = Some old"
    and up: "updated = old
       \<lparr> go_id := (case upd_id d of None \<Rightarrow> i | Some v \<Rightarrow> v),
         go_updatedAt :=
           (if upd_id d = None \<and> upd_name d = None \<and> upd_description d = None
            then go_updatedAt old else now),
         go_name := (case upd_name d of None \<Rightarrow> go_name old | Some v \<Rightarrow> v),
         go_description :=
           (case upd_description d of None \<Rightarrow> go_description old | Some v \<Rightarrow> Some v) \<rparr>"
    and tb: "tbl_gameObject s' =
               map (\<lambda>go. if go_id go = i then updated else go) (tbl_gameObject s)"
    and rl: "rel_gameObject_tags s' =
               moved @ filter (\<lambda>p. p \<notin> set moved) (remdups (map (Pair (go_id updated)) connect))"
    unfolding moved_def connect_def by blast
  from f have o: "old \<in> set (tbl_gameObject s)" "go_id old = i"
    by (auto dest: find_Some_mem)
  have m: "updated \<in> set (tbl_gameObject s')"
  proof -
    from o have "(if go_id old = i then updated else old) \<in>
                 (\<lambda>go. if go_id go = i then updated else go) ` set (tbl_gameObject s)"
      by (intro imageI)
    with o(2) show ?thesis
      by (simp add: tb)
  qed
  have k: "tagsOf s i \<subseteq> tagsOf s' (go_id updated)"
  proof
    fix t assume "t \<in> tagsOf s i"
    then have "(i, t) \<in> set (rel_gameObject_tags s)"
      by (simp only: tagsOf_iff)
    then have "(\<lambda>(g, t). (if g = i then go_id updated else g, t)) (i, t) \<in> set moved"
      unfolding moved_def set_map by (rule imageI)
    then have "(go_id updated, t) \<in> set moved"
      by simp
    then show "t \<in> tagsOf s' (go_id updated)"
      by (simp add: tagsOf_iff rl)
  qed
  have c: "set ts \<subseteq> tagsOf s' (go_id updated)" if "data_tags dat = Some ts" for ts
  proof
    fix t assume t: "t \<in> set ts"
    from that have "connect = ts"
      by (simp add: connect_def d_def)
    with t have "(go_id updated, t) \<in> set (map (Pair (go_id updated)) connect)"
      by simp
    then have "(go_id updated, t) \<in> set (rel_gameObject_tags s')"
      unfolding rl by auto
    then show "t \<in> tagsOf s' (go_id updated)"
      by (simp only: tagsOf_iff)
  qed
  have sc:
    "go_id updated = (case data_id dat of None \<Rightarrow> go_id old | Some v \<Rightarrow> v)"
    "go_name updated = (case data_name dat of None \<Rightarrow> go_name old | Some v \<Rightarrow> v)"
    "go_description updated =
       (case data_description dat of None \<Rightarrow> go_description old | Some v \<Rightarrow> Some v)"
    "go_createdAt updated = go_createdAt old"
    by (simp_all add: up o(2) d_def split: option.splits)
  from c have c': "\<forall>ts. data_tags dat = Some ts \<longrightarrow> set ts \<subseteq> tagsOf s' (go_id updated)"
    by blast
  show ?thesis
    by (intro exI [of _ old] conjI) (rule f m k c' sc)+
qed

text \<open>
  The game object go1 carries t1. An update with a new name and the tag list [t2]
  leaves it with t1 and t2, the new name, and its id and description as before.
\<close>

theorem updateById_additive_witness:
  "\<exists>s' updated.
     updateById 99 store_g1 ''go1''
       \<lparr> data_id = None, data_name = Some ''uno'', data_description = None,
         data_tags = Some [''t2''] \<rparr> = Inr (s', updated) \<and>
     ''t1'' \<in> tagsOf store_g1 ''go1'' \<and> ''t2'' \<notin> tagsOf store_g1 ''go1'' \<and>
     ''t1'' \<in> tagsOf s' ''go1'' \<and> ''t2'' \<in> tagsOf s' ''go1'' \<and>
     go_id updated = ''go1'' \<and> go_name updated = ''uno'' \<and> go_description updated = None"
proof -
  let ?dat = "\<lparr> data_id = None, data_name = Some ''uno'', data_description = None,
                data_tags = Some [''t2''] \<rparr>"
  have "\<exists>s' updated. updateById 99 store_g1 ''go1'' ?dat = Inr (s', updated)"
    by (simp add: updateById_def gameObject_update_def example_defs Let_def)
  then obtain s' updated where e: "updateById 99 store_g1 ''go1'' ?dat = Inr (s', updated)"
    by blast
  have old: "find (\<lambda>go. go_id go = ''go1'') (tbl_gameObject store_g1) =
               Some (mkGameObject ''go1'' ''one'' None)"
    by (simp add: example_defs)
  have t: "''t1'' \<in> tagsOf store_g1 ''go1''" "''t2'' \<notin> tagsOf store_g1 ''go1''"
    by (simp_all add: tagsOf_def example_defs)
  from updateById_additive [OF e] old
  have r: "tagsOf store_g1 ''go1'' \<subseteq> tagsOf s' (go_id updated)"
    "\<forall>ts. data_tags ?dat = Some ts \<longrightarrow> set ts \<subseteq> tagsOf s' (go_id updated)"
    "go_id updated =
       (case data_id ?dat of None \<Rightarrow> go_id (mkGameObject ''go1'' ''one'' None) | Some v \<Rightarrow> v)"
    "go_name updated =
       (case data_name ?dat of None \<Rightarrow> go_name (mkGameObject ''go1'' ''one'' None)
        | Some v \<Rightarrow> v)"
    "go_description updated =
       (case data_description ?dat of
          None \<Rightarrow> go_description (mkGameObject ''go1'' ''one'' None) | Some v \<Rightarrow> Some v)"
    by auto
  from r(3) have i: "go_id updated = ''go1''"
    by (simp add: mkGameObject_def)
  from r(4) have n: "go_name updated = ''uno''"
    by simp
  from r(5) have ds: "go_description updated = None"
    by (simp add: mkGameObject_def)
  from r(1) t(1) have t1: "''t1'' \<in> tagsOf s' ''go1''"
    unfolding i by blast
  from r(2) have t2: "''t2'' \<in> tagsOf s' ''go1''"
    unfolding i by simp
  show ?thesis
    by (intro exI [of _ s'] exI [of _ updated] conjI) (rule e t t1 t2 i n ds)+
qed

end
